theory Spec2Isabelle
  imports Main
begin

section \<open>JavaScript data as the library sees it\<close>

text \<open>
  A plain object is the list of its own enumerable properties in enumeration order, so
  that \<open>Object.keys\<close> and \<open>Object.values\<close> read the same order. The scalar type \<open>'v\<close>
  of bound values and column values is left open.
\<close>

type_synonym 'v row = "(string \<times> 'v) list"

definition Object_keys :: "'v row \<Rightarrow> string list" where
  "Object_keys obj = map fst obj"

definition Object_values :: "'v row \<Rightarrow> 'v list" where
  "Object_values obj = map snd obj"

datatype js_error = TypeError | RangeError | DriverFailure string

text \<open>
  Decimal rendering of a non-negative integer, as string concatenation and template
  literals do it. The numbers rendered here are placeholder positions, far below the
  range where a JavaScript number stops being an exact integer.
\<close>

definition digit :: "nat \<Rightarrow> char" where
  "digit d = ''0123456789'' ! d"

fun number_to_string :: "nat \<Rightarrow> string" where
  "number_to_string n =
     (if n < 10 then [digit n] else number_to_string (n div 10) @ [digit (n mod 10)])"

declare number_to_string.simps [simp del]

text \<open>
  Reading an array of strings at an index gives \<open>undefined\<close> (here \<open>None\<close>) out of range,
  and concatenating \<open>undefined\<close> to a string renders it as the text \<open>undefined\<close>.
\<close>

definition js_index :: "'a list \<Rightarrow> nat \<Rightarrow> 'a option" where
  "js_index xs i = (if i < length xs then Some (xs ! i) else None)"

fun ToString :: "string option \<Rightarrow> string" where
  "ToString None = ''undefined''"
| "ToString (Some s) = s"

text \<open>\<open>Array.prototype.join\<close> on an array of strings.\<close>

fun join :: "string \<Rightarrow> string list \<Rightarrow> string" where
  "join sep [] = []"
| "join sep [x] = x"
| "join sep (x # y # ys) = x @ sep @ join sep (y # ys)"

text \<open>\<open>Array.prototype.map\<close> with the callback's index argument.\<close>

fun map_from :: "nat \<Rightarrow> ('a \<Rightarrow> nat \<Rightarrow> 'b) \<Rightarrow> 'a list \<Rightarrow> 'b list" where
  "map_from i f [] = []"
| "map_from i f (x # xs) = f x i # map_from (Suc i) f xs"

definition map_index :: "('a \<Rightarrow> nat \<Rightarrow> 'b) \<Rightarrow> 'a list \<Rightarrow> 'b list" where
  "map_index f xs = map_from 0 f xs"

section \<open>Statements\<close>

text \<open>
  The pair \<open>{ sql, values }\<close>. The text is \<open>None\<close> where the source leaves it
  \<open>undefined\<close>, which only \<open>parseTemplate\<close> on an empty array of fragments does.
\<close>

record 'v statement =
  sql :: "string option"
  vals :: "'v list"

section \<open>parseTemplate\<close>

text \<open>
  The loop of \<open>parseTemplate\<close>, with the loop variables \<open>i\<close>, \<open>sql\<close> (here
  \<open>sql_acc\<close>) and \<open>values\<close> as arguments. The two dialects differ in the placeholder
  token only: \<open>ph i\<close> is the text appended for position \<open>i\<close>.
\<close>

function parseTemplate_loop ::
  "(nat \<Rightarrow> string) \<Rightarrow> string list \<Rightarrow> 'v list \<Rightarrow> nat \<Rightarrow> string option \<Rightarrow> 'v list \<Rightarrow> 'v statement"
where
  "parseTemplate_loop ph strings vars i sql_acc values =
     (if i < length vars
      then parseTemplate_loop ph strings vars (i + 1)
             (Some (ToString sql_acc @ (ph i @ ToString (js_index strings (i + 1)))))
             (values @ [vars ! i])
      else \<lparr>sql = sql_acc, vals = values\<rparr>)"
  by pat_completeness auto
termination
  by (relation "measure (\<lambda>(ph, strings, vars, i, sql_acc, values). length vars - i)") auto

declare parseTemplate_loop.simps [simp del]

text \<open>postgres.js: the token is \<open>"$" + (i + 1)\<close>.\<close>

definition pg_parseTemplate :: "string list \<Rightarrow> 'v list \<Rightarrow> 'v statement" where
  "pg_parseTemplate strings vars =
     parseTemplate_loop (\<lambda>i. ''$'' @ number_to_string (i + 1)) strings vars 0
       (js_index strings 0) []"

text \<open>The embedded dialect: the token is \<open>"?"\<close>.\<close>

definition sqlite_parseTemplate :: "string list \<Rightarrow> 'v list \<Rightarrow> 'v statement" where
  "sqlite_parseTemplate strings vars =
     parseTemplate_loop (\<lambda>i. ''?'') strings vars 0 (js_index strings 0) []"

section \<open>Drivers and results\<close>

text \<open>
  The query result of the client/server driver: \<open>rows\<close> is an array of row objects keyed
  by column name, \<open>rowCount\<close> the number of rows the command affected.
\<close>

record 'v pg_result =
  rows :: "'v row list"
  rowCount :: nat

text \<open>
  What a prepared statement of the embedded driver yields when it runs with its bound
  values: the rows it returns and the number of rows it changed.
\<close>

record 'v sqlite_result =
  result_rows :: "'v row list"
  changes :: nat

text \<open>
  The drivers are external: a client is a parameter, the function from the statement text
  and the bound values it is given to a failure or a result. For the client/server
  dialect it stands for \<open>client.query(text, values)\<close>, for the embedded one for
  \<open>client.prepare(text)\<close> followed by the run with the bound values.
\<close>

type_synonym 'v pg_client = "string option \<Rightarrow> 'v list \<Rightarrow> js_error + 'v pg_result"

type_synonym 'v sqlite_client = "string option \<Rightarrow> 'v list \<Rightarrow> js_error + 'v sqlite_result"

text \<open>Clients over a database that answers every statement with the same result.\<close>

definition pg_fixed :: "'v pg_result \<Rightarrow> 'v pg_client" where
  "pg_fixed r text values = Inr r"

definition sqlite_fixed :: "'v sqlite_result \<Rightarrow> 'v sqlite_client" where
  "sqlite_fixed r text values = Inr r"

text \<open>The values the operations return.\<close>

datatype 'v js_value =
    Undefined
  | Scalar 'v
  | RowV "'v row"
  | RowSetV "'v row list"
  | QueryResultV "'v pg_result"
  | OperationResult string nat

text \<open>
  An operation is asynchronous and either resolves to a value or rejects with an error;
  \<open>issued\<close> lists the statements it has handed to the driver.
\<close>

record 'v effect =
  issued :: "'v statement list"
  outcome :: "js_error + 'v js_value"

text \<open>
  Modelled from the spec: the result shaping of the embedded driver's statement methods
  \<open>get\<close>, \<open>all\<close> and \<open>pluck().get\<close>, which belong to the driver and not to the
  repository: the first row or absence, the full row sequence, and the first column of the
  first row or absence.
\<close>

definition Statement_get :: "'v sqlite_result \<Rightarrow> 'v js_value" where
  "Statement_get r = (case result_rows r of [] \<Rightarrow> Undefined | x # _ \<Rightarrow> RowV x)"

definition Statement_all :: "'v sqlite_result \<Rightarrow> 'v js_value" where
  "Statement_all r = RowSetV (result_rows r)"

definition Statement_pluck_get :: "'v sqlite_result \<Rightarrow> 'v js_value" where
  "Statement_pluck_get r =
     (case result_rows r of
        [] \<Rightarrow> Undefined
      | x # _ \<Rightarrow> (case x of [] \<Rightarrow> Undefined | (c, v) # _ \<Rightarrow> Scalar v))"

section \<open>insert\<close>

text \<open>The \<open>data\<close> argument of \<open>insert\<close>: one object, or an array of objects.\<close>

datatype 'v insert_data = Single "'v row" | Many "'v row list"

text \<open>
  postgres.js. In the array branch \<open>Object.keys(data[0])\<close> throws a TypeError when
  \<open>data[0]\<close> is \<open>undefined\<close>, before anything is built.
\<close>

definition pg_insert :: "'v pg_client \<Rightarrow> string \<Rightarrow> 'v insert_data \<Rightarrow> 'v effect" where
  "pg_insert client table data =
     (case data of
        Many rws \<Rightarrow>
          (case js_index rws 0 of
             None \<Rightarrow> \<lparr>issued = [], outcome = Inl TypeError\<rparr>
           | Some first \<Rightarrow>
               (let keys = Object_keys first;
                    placeholders =
                      join '', ''
                        (map_index
                           (\<lambda>_ i. ''('' @
                              join '', ''
                                (map_index
                                   (\<lambda>_ j. ''$'' @ number_to_string (i * length keys + j + 1))
                                   keys) @
                              '')'')
                           rws);
                    query = ''INSERT INTO '' @ table @ '' ('' @ join '', '' keys @
                            '') VALUES '' @ placeholders;
                    values = foldl (\<lambda>acc row. acc @ Object_values row) [] rws
                in \<lparr>issued = [\<lparr>sql = Some query, vals = values\<rparr>],
                    outcome =
                      (case client (Some query) values of
                         Inl e \<Rightarrow> Inl e
                       | Inr result \<Rightarrow> Inr (OperationResult ''insert'' (rowCount result)))\<rparr>))
      | Single obj \<Rightarrow>
          (let keys = Object_keys obj;
               values = Object_values obj;
               placeholders =
                 join '', '' (map_index (\<lambda>_ i. ''$'' @ number_to_string (i + 1)) keys);
               query = ''INSERT INTO '' @ table @ '' ('' @ join '', '' keys @
                       '') VALUES ('' @ placeholders @ '')''
           in \<lparr>issued = [\<lparr>sql = Some query, vals = values\<rparr>],
               outcome =
                 (case client (Some query) values of
                    Inl e \<Rightarrow> Inl e
                  | Inr result \<Rightarrow> Inr (OperationResult ''insert'' (rowCount result)))\<rparr>))"

text \<open>The embedded dialect: the same two branches with \<open>?\<close> for every slot.\<close>

definition sqlite_insert :: "'v sqlite_client \<Rightarrow> string \<Rightarrow> 'v insert_data \<Rightarrow> 'v effect" where
  "sqlite_insert client table data =
     (case data of
        Many rws \<Rightarrow>
          (case js_index rws 0 of
             None \<Rightarrow> \<lparr>issued = [], outcome = Inl TypeError\<rparr>
           | Some first \<Rightarrow>
               (let keys = Object_keys first;
                    placeholders =
                      join '', ''
                        (map (\<lambda>_. ''('' @ join '', '' (map (\<lambda>_. ''?'') keys) @ '')'') rws);
                    query = ''INSERT INTO '' @ table @ '' ('' @ join '', '' keys @
                            '') VALUES '' @ placeholders;
                    values = foldl (\<lambda>acc row. acc @ Object_values row) [] rws
                in \<lparr>issued = [\<lparr>sql = Some query, vals = values\<rparr>],
                    outcome =
                      (case client (Some query) values of
                         Inl e \<Rightarrow> Inl e
                       | Inr result \<Rightarrow> Inr (OperationResult ''insert'' (changes result)))\<rparr>))
      | Single obj \<Rightarrow>
          (let keys = Object_keys obj;
               placeholders = join '', '' (map (\<lambda>_. ''?'') keys);
               query = ''INSERT INTO '' @ table @ '' ('' @ join '', '' keys @
                       '') VALUES ('' @ placeholders @ '')'';
               values = Object_values obj
           in \<lparr>issued = [\<lparr>sql = Some query, vals = values\<rparr>],
               outcome =
                 (case client (Some query) values of
                    Inl e \<Rightarrow> Inl e
                  | Inr result \<Rightarrow> Inr (OperationResult ''insert'' (changes result)))\<rparr>))"

section \<open>get and list\<close>

text \<open>postgres.js: both return what \<open>client.query\<close> resolves to, the whole query result.\<close>

definition pg_get :: "'v pg_client \<Rightarrow> string \<Rightarrow> 'v row \<Rightarrow> 'v effect" where
  "pg_get client table wher =
     (let keys = Object_keys wher;
          values = Object_values wher;
          whereClause =
            join '' AND ''
              (map_index (\<lambda>key i. key @ '' = $'' @ number_to_string (i + 1)) keys);
          query = ''SELECT * FROM '' @ table @ '' WHERE '' @ whereClause
      in \<lparr>issued = [\<lparr>sql = Some query, vals = values\<rparr>],
          outcome =
            (case client (Some query) values of
               Inl e \<Rightarrow> Inl e
             | Inr result \<Rightarrow> Inr (QueryResultV result))\<rparr>)"

definition pg_list :: "'v pg_client \<Rightarrow> string \<Rightarrow> 'v row \<Rightarrow> 'v effect" where
  "pg_list client table wher =
     (let keys = Object_keys wher;
          values = Object_values wher;
          whereClause =
            join '' AND ''
              (map_index (\<lambda>key i. key @ '' = $'' @ number_to_string (i + 1)) keys);
          query = ''SELECT * FROM '' @ table @ '' WHERE '' @ whereClause
      in \<lparr>issued = [\<lparr>sql = Some query, vals = values\<rparr>],
          outcome =
            (case client (Some query) values of
               Inl e \<Rightarrow> Inl e
             | Inr result \<Rightarrow> Inr (QueryResultV result))\<rparr>)"

text \<open>The embedded dialect: \<open>get\<close> ends in the statement's \<open>get\<close>, \<open>list\<close> in its \<open>all\<close>.\<close>

definition sqlite_get :: "'v sqlite_client \<Rightarrow> string \<Rightarrow> 'v row \<Rightarrow> 'v effect" where
  "sqlite_get client table wher =
     (let keys = Object_keys wher;
          values = Object_values wher;
          whereClause = join '' and '' (map (\<lambda>key. key @ '' = ?'') keys);
          query = ''select * from '' @ table @ '' where '' @ whereClause
      in \<lparr>issued = [\<lparr>sql = Some query, vals = values\<rparr>],
          outcome =
            (case client (Some query) values of
               Inl e \<Rightarrow> Inl e
             | Inr result \<Rightarrow> Inr (Statement_get result))\<rparr>)"

definition sqlite_list :: "'v sqlite_client \<Rightarrow> string \<Rightarrow> 'v row \<Rightarrow> 'v effect" where
  "sqlite_list client table wher =
     (let keys = Object_keys wher;
          values = Object_values wher;
          whereClause = join '' and '' (map (\<lambda>key. key @ '' = ?'') keys);
          query = ''select * from '' @ table @ '' where '' @ whereClause
      in \<lparr>issued = [\<lparr>sql = Some query, vals = values\<rparr>],
          outcome =
            (case client (Some query) values of
               Inl e \<Rightarrow> Inl e
             | Inr result \<Rightarrow> Inr (Statement_all result))\<rparr>)"

section \<open>update\<close>

definition pg_update :: "'v pg_client \<Rightarrow> string \<Rightarrow> 'v row \<Rightarrow> 'v row \<Rightarrow> 'v effect" where
  "pg_update client table wher data =
     (let keys = Object_keys data;
          values = Object_values data;
          setClause =
            join '', '' (map_index (\<lambda>key i. key @ '' = $'' @ number_to_string (i + 1)) keys);
          whereKeys = Object_keys wher;
          whereValues = Object_values wher;
          whereClause =
            join '' AND ''
              (map_index
                 (\<lambda>key i. key @ '' = $'' @ number_to_string (i + 1 + length values))
                 whereKeys);
          query = ''UPDATE '' @ table @ '' SET '' @ setClause @ '' WHERE '' @ whereClause
      in \<lparr>issued = [\<lparr>sql = Some query, vals = values @ whereValues\<rparr>],
          outcome =
            (case client (Some query) (values @ whereValues) of
               Inl e \<Rightarrow> Inl e
             | Inr result \<Rightarrow> Inr (OperationResult ''update'' (rowCount result)))\<rparr>)"

text \<open>
  The embedded dialect hands the bound values to \<open>run\<close> as one array, which the driver
  binds by position like separate arguments.
\<close>

definition sqlite_update :: "'v sqlite_client \<Rightarrow> string \<Rightarrow> 'v row \<Rightarrow> 'v row \<Rightarrow> 'v effect" where
  "sqlite_update client table wher data =
     (let keys = Object_keys data;
          values = Object_values data;
          setClause = join '', '' (map_index (\<lambda>key index. key @ '' = ?'') keys);
          whereKeys = Object_keys wher;
          whereValues = Object_values wher;
          whereClause = join '' AND '' (map_index (\<lambda>key index. key @ '' = ?'') whereKeys);
          query = ''UPDATE '' @ table @ '' SET '' @ setClause @ '' WHERE '' @ whereClause
      in \<lparr>issued = [\<lparr>sql = Some query, vals = values @ whereValues\<rparr>],
          outcome =
            (case client (Some query) (values @ whereValues) of
               Inl e \<Rightarrow> Inl e
             | Inr result \<Rightarrow> Inr (OperationResult ''update'' (changes result)))\<rparr>)"

section \<open>table\<close>

text \<open>
  Inside \<open>table\<close> the constants \<open>insert\<close>, \<open>get\<close> and \<open>list\<close> are declared anew, and the
  name in each body \<open>(data) => insert(table, data)\<close> is bound to the constant being
  declared, not to the operation of the enclosing scope. A call therefore calls the same
  one-parameter function again, with the table name as its \<open>data\<close> and the second argument
  dropped. The three functions are not asynchronous, so every call takes a stack frame;
  \<open>depth\<close> is the number of frames the engine has left, and with none left it throws a
  RangeError. The same text stands in both dialects.
\<close>

datatype 'v js_arg = ArgString string | ArgObject "'v row" | ArgArray "'v row list"

fun table_insert :: "nat \<Rightarrow> string \<Rightarrow> 'v js_arg \<Rightarrow> 'v effect" where
  "table_insert 0 table data = \<lparr>issued = [], outcome = Inl RangeError\<rparr>"
| "table_insert (Suc depth) table data = table_insert depth table (ArgString table)"

fun table_get :: "nat \<Rightarrow> string \<Rightarrow> 'v js_arg \<Rightarrow> 'v effect" where
  "table_get 0 table data = \<lparr>issued = [], outcome = Inl RangeError\<rparr>"
| "table_get (Suc depth) table data = table_get depth table (ArgString table)"

fun table_list :: "nat \<Rightarrow> string \<Rightarrow> 'v js_arg \<Rightarrow> 'v effect" where
  "table_list 0 table data = \<lparr>issued = [], outcome = Inl RangeError\<rparr>"
| "table_list (Suc depth) table data = table_list depth table (ArgString table)"

record 'v table_api =
  tbl_insert :: "nat \<Rightarrow> 'v js_arg \<Rightarrow> 'v effect"
  tbl_get :: "nat \<Rightarrow> 'v js_arg \<Rightarrow> 'v effect"
  tbl_list :: "nat \<Rightarrow> 'v js_arg \<Rightarrow> 'v effect"

definition pg_table :: "'v pg_client \<Rightarrow> string \<Rightarrow> 'v table_api" where
  "pg_table client table =
     \<lparr>tbl_insert = (\<lambda>depth data. table_insert depth table data),
      tbl_get = (\<lambda>depth data. table_get depth table data),
      tbl_list = (\<lambda>depth data. table_list depth table data)\<rparr>"

definition sqlite_table :: "'v sqlite_client \<Rightarrow> string \<Rightarrow> 'v table_api" where
  "sqlite_table client table =
     \<lparr>tbl_insert = (\<lambda>depth data. table_insert depth table data),
      tbl_get = (\<lambda>depth data. table_get depth table data),
      tbl_list = (\<lambda>depth data. table_list depth table data)\<rparr>"

section \<open>pluck\<close>

text \<open>
  postgres.js returns \<open>result.rows[0][0]\<close>: reading index 0 of \<open>undefined\<close> throws a
  TypeError when there is no row, and on a row object it reads the property named \<open>0\<close>.
\<close>

definition pg_pluck :: "'v pg_client \<Rightarrow> string list \<Rightarrow> 'v list \<Rightarrow> 'v effect" where
  "pg_pluck client strings vars =
     (let st = pg_parseTemplate strings vars
      in \<lparr>issued = [st],
          outcome =
            (case client (sql st) (vals st) of
               Inl e \<Rightarrow> Inl e
             | Inr result \<Rightarrow>
                 (case js_index (rows result) 0 of
                    None \<Rightarrow> Inl TypeError
                  | Some row0 \<Rightarrow>
                      Inr (case map_of row0 ''0'' of
                             None \<Rightarrow> Undefined
                           | Some v \<Rightarrow> Scalar v)))\<rparr>)"

definition sqlite_pluck :: "'v sqlite_client \<Rightarrow> string list \<Rightarrow> 'v list \<Rightarrow> 'v effect" where
  "sqlite_pluck client strings vars =
     (let st = sqlite_parseTemplate strings vars
      in \<lparr>issued = [st],
          outcome =
            (case client (sql st) (vals st) of
               Inl e \<Rightarrow> Inl e
             | Inr result \<Rightarrow> Inr (Statement_pluck_get result))\<rparr>)"

section \<open>The template parser\<close>

lemma parseTemplate_loop_vals:
  "vals (parseTemplate_loop ph strings vars i acc vs) = vs @ drop i vars"
proof (induction ph strings vars i acc vs rule: parseTemplate_loop.induct)
  case (1 ph strings vars i acc vs)
  show ?case
  proof (cases "i < length vars")
    case True
    have "vals (parseTemplate_loop ph strings vars i acc vs) =
          vals (parseTemplate_loop ph strings vars (i + 1)
                 (Some (ToString acc @ (ph i @ ToString (js_index strings (i + 1)))))
                 (vs @ [vars ! i]))"
      using True by (subst parseTemplate_loop.simps) simp
    also have "\<dots> = (vs @ [vars ! i]) @ drop (i + 1) vars"
      using True by (rule "1.IH")
    also have "\<dots> = vs @ drop i vars"
      using True by (simp add: Cons_nth_drop_Suc)
    finally show ?thesis .
  next
    case False
    then show ?thesis by (subst parseTemplate_loop.simps) simp
  qed
qed

lemma parseTemplate_loop_sql:
  "sql (parseTemplate_loop ph strings vars i acc vs) =
     (if i < length vars
      then Some (ToString acc @
                 concat (map (\<lambda>k. ph k @ ToString (js_index strings (k + 1))) [i..<length vars]))
      else acc)"
proof (induction ph strings vars i acc vs rule: parseTemplate_loop.induct)
  case (1 ph strings vars i acc vs)
  show ?case
  proof (cases "i < length vars")
    case True
    have step: "sql (parseTemplate_loop ph strings vars i acc vs) =
          sql (parseTemplate_loop ph strings vars (i + 1)
                 (Some (ToString acc @ (ph i @ ToString (js_index strings (i + 1)))))
                 (vs @ [vars ! i]))"
      using True by (subst parseTemplate_loop.simps) simp
    have ih: "sql (parseTemplate_loop ph strings vars (i + 1)
                 (Some (ToString acc @ (ph i @ ToString (js_index strings (i + 1)))))
                 (vs @ [vars ! i])) =
          (if i + 1 < length vars
           then Some (ToString (Some (ToString acc @ (ph i @ ToString (js_index strings (i + 1))))) @
                 concat (map (\<lambda>k. ph k @ ToString (js_index strings (k + 1))) [i + 1..<length vars]))
           else Some (ToString acc @ (ph i @ ToString (js_index strings (i + 1)))))"
      using True by (rule "1.IH")
    have upt: "[i..<length vars] = i # [i + 1..<length vars]"
      using True by (simp add: upt_conv_Cons)
    show ?thesis
    proof (cases "i + 1 < length vars")
      case True
      with step ih upt \<open>i < length vars\<close> show ?thesis by simp
    next
      case False
      with \<open>i < length vars\<close> have "[i + 1..<length vars] = []" by simp
      with step ih upt False \<open>i < length vars\<close> show ?thesis by simp
    qed
  next
    case False
    then show ?thesis by (subst parseTemplate_loop.simps) simp
  qed
qed

lemma statement_eqI:
  "sql s = a \<Longrightarrow> vals s = b \<Longrightarrow> (s :: 'v statement) = \<lparr>sql = a, vals = b\<rparr>"
  by (cases s) simp

lemma parseTemplate_loop_closed:
  assumes "length strings = length vars + 1"
  shows "parseTemplate_loop ph strings vars 0 (js_index strings 0) [] =
     \<lparr>sql = Some (strings ! 0 @ concat (map (\<lambda>i. ph i @ strings ! (i + 1)) [0..<length vars])),
      vals = vars\<rparr>"
proof (rule statement_eqI)
  have frag: "map (\<lambda>k. ph k @ ToString (js_index strings (k + 1))) [0..<length vars] =
              map (\<lambda>i. ph i @ strings ! (i + 1)) [0..<length vars]"
    using assms by (intro map_cong refl) (simp add: js_index_def)
  have first: "js_index strings 0 = Some (strings ! 0)"
    using assms by (simp add: js_index_def)
  show "sql (parseTemplate_loop ph strings vars 0 (js_index strings 0) []) =
        Some (strings ! 0 @ concat (map (\<lambda>i. ph i @ strings ! (i + 1)) [0..<length vars]))"
    unfolding parseTemplate_loop_sql frag first by simp
  show "vals (parseTemplate_loop ph strings vars 0 (js_index strings 0) []) = vars"
    by (simp add: parseTemplate_loop_vals)
qed

lemma digit_not_marker: "d < 10 \<Longrightarrow> CHR ''$'' \<noteq> digit d"
proof -
  assume "d < 10"
  then have "d \<in> {0,1,2,3,4,5,6,7,8,9}" by auto
  then show ?thesis by (auto simp: digit_def)
qed

lemma number_to_string_no_marker: "CHR ''$'' \<notin> set (number_to_string n)"
proof (induction n rule: number_to_string.induct)
  case (1 n)
  show ?case
  proof (cases "n < 10")
    case True
    then show ?thesis by (subst number_to_string.simps) (simp add: digit_not_marker)
  next
    case False
    then have "n mod 10 < 10" by simp
    with False "1.IH" show ?thesis
      by (subst number_to_string.simps) (simp add: digit_not_marker)
  qed
qed

lemma count_list_concat: "count_list (concat xss) c = sum_list (map (\<lambda>xs. count_list xs c) xss)"
  by (induction xss) simp_all

lemma count_list_absent: "c \<notin> set xs \<Longrightarrow> count_list xs c = 0"
  by (induction xs) auto

lemma sum_list_const_one: "sum_list (map (\<lambda>_. Suc 0) xs) = length xs"
  by (induction xs) simp_all

lemma count_interleaved:
  assumes len: "length F = length V + 1"
    and frag: "\<forall>f\<in>set F. c \<notin> set f"
    and tok: "\<forall>i. count_list (ph i) c = 1"
  shows "count_list (F ! 0 @ concat (map (\<lambda>i. ph i @ F ! (i + 1)) [0..<length V])) c = length V"
proof -
  have f0: "count_list (F ! 0) c = 0"
    using len frag by (simp add: count_list_absent)
  have each: "\<And>i. i < length V \<Longrightarrow> count_list (ph i @ F ! (i + 1)) c = Suc 0"
    using len frag tok by (simp add: count_list_absent)
  have "map (\<lambda>xs. count_list xs c) (map (\<lambda>i. ph i @ F ! (i + 1)) [0..<length V]) =
        map (\<lambda>_. Suc 0) [0..<length V]"
    using each by simp
  then have "count_list (concat (map (\<lambda>i. ph i @ F ! (i + 1)) [0..<length V])) c = length V"
    by (simp only: count_list_concat sum_list_const_one length_upt diff_zero)
  with f0 show ?thesis by simp
qed

text \<open>
  C1. For fragments \<open>F\<close> and values \<open>V\<close> with one more fragment than values,
  \<open>parseTemplate\<close> returns in both dialects the values \<open>V\<close> unchanged and the text
  \<open>F[0]\<close> followed, for each position \<open>i\<close> in order, by the placeholder of position
  \<open>i\<close> (\<open>$\<close> and \<open>i + 1\<close> in the numbered dialect, \<open>?\<close> in the positional one) and
  \<open>F[i + 1]\<close>. With no value the text is \<open>F[0]\<close> and the values are empty. The
  parser thus inserts one placeholder per value, in the order of the values. The fragments
  are copied as they are, so the text as a whole contains exactly \<open>length V\<close> markers
  only where no fragment contains the marker character (\<open>$\<close>, \<open>?\<close>) itself.
\<close>

theorem parseTemplate_interleaves:
  fixes V :: "'v list"
  assumes "length F = length V + 1"
  shows "pg_parseTemplate F V =
           \<lparr>sql = Some (F ! 0 @
                   concat (map (\<lambda>i. (''$'' @ number_to_string (i + 1)) @ F ! (i + 1))
                             [0..<length V])),
            vals = V\<rparr>
       \<and> sqlite_parseTemplate F V =
           \<lparr>sql = Some (F ! 0 @ concat (map (\<lambda>i. ''?'' @ F ! (i + 1)) [0..<length V])),
            vals = V\<rparr>
       \<and> pg_parseTemplate [f] ([] :: 'v list) = \<lparr>sql = Some f, vals = []\<rparr>
       \<and> sqlite_parseTemplate [f] ([] :: 'v list) = \<lparr>sql = Some f, vals = []\<rparr>
       \<and> ((\<forall>f\<in>set F. CHR ''$'' \<notin> set f) \<longrightarrow>
            count_list (ToString (sql (pg_parseTemplate F V))) CHR ''$'' = length V)
       \<and> ((\<forall>f\<in>set F. CHR ''?'' \<notin> set f) \<longrightarrow>
            count_list (ToString (sql (sqlite_parseTemplate F V))) CHR ''?'' = length V)"
proof -
  have pg: "pg_parseTemplate F V =
           \<lparr>sql = Some (F ! 0 @
                   concat (map (\<lambda>i. (''$'' @ number_to_string (i + 1)) @ F ! (i + 1))
                             [0..<length V])),
            vals = V\<rparr>"
    unfolding pg_parseTemplate_def using assms by (rule parseTemplate_loop_closed)
  have sq: "sqlite_parseTemplate F V =
           \<lparr>sql = Some (F ! 0 @ concat (map (\<lambda>i. ''?'' @ F ! (i + 1)) [0..<length V])),
            vals = V\<rparr>"
    unfolding sqlite_parseTemplate_def using assms by (rule parseTemplate_loop_closed)
  have pg0: "pg_parseTemplate [f] ([] :: 'v list) = \<lparr>sql = Some f, vals = []\<rparr>"
    unfolding pg_parseTemplate_def by (simp add: parseTemplate_loop_closed)
  have sq0: "sqlite_parseTemplate [f] ([] :: 'v list) = \<lparr>sql = Some f, vals = []\<rparr>"
    unfolding sqlite_parseTemplate_def by (simp add: parseTemplate_loop_closed)
  have pgc: "count_list (ToString (sql (pg_parseTemplate F V))) CHR ''$'' = length V"
    if "\<forall>f\<in>set F. CHR ''$'' \<notin> set f"
  proof -
    have "\<forall>i. count_list (''$'' @ number_to_string (i + 1)) CHR ''$'' = 1"
      by (simp add: count_list_absent number_to_string_no_marker)
    from count_interleaved [OF assms that this] show ?thesis by (simp add: pg)
  qed
  have sqc: "count_list (ToString (sql (sqlite_parseTemplate F V))) CHR ''?'' = length V"
    if "\<forall>f\<in>set F. CHR ''?'' \<notin> set f"
  proof -
    have "\<forall>i::nat. count_list ''?'' CHR ''?'' = 1" by simp
    from count_interleaved [OF assms that this] show ?thesis by (simp add: sq)
  qed
  from pg sq pg0 sq0 pgc sqc show ?thesis by blast
qed


theorem parseTemplate_interleaves_witness:
  "length [''select * from t where a = '', '' and b = '', ''''] = length [1::int, 2] + 1
   \<and> CHR ''$'' \<notin> set (concat [''select * from t where a = '', '' and b = '', ''''])
   \<and> CHR ''?'' \<notin> set (concat [''select * from t where a = '', '' and b = '', ''''])
   \<and> pg_parseTemplate [''select * from t where a = '', '' and b = '', ''''] [1::int, 2] =
        \<lparr>sql = Some ''select * from t where a = $1 and b = $2'', vals = [1, 2]\<rparr>
   \<and> sqlite_parseTemplate [''select * from t where a = '', '' and b = '', ''''] [1::int, 2] =
        \<lparr>sql = Some ''select * from t where a = ? and b = ?'', vals = [1, 2]\<rparr>
   \<and> count_list ''select * from t where a = $1 and b = $2'' CHR ''$'' = length [1::int, 2]
   \<and> count_list ''select * from t where a = ? and b = ?'' CHR ''?'' = length [1::int, 2]"
  using parseTemplate_interleaves
          [of "[''select * from t where a = '', '' and b = '', '''']" "[1::int, 2]" "''select 1''"]
  by (simp add: number_to_string.simps digit_def)

text \<open>
  C1 as stated, that the text always contains exactly as many placeholders as there are
  values, fails where a fragment itself contains the marker: fragments are copied as they
  are, so one value can stand against two markers in the text, in either dialect.
\<close>

theorem parseTemplate_marker_in_fragment:
  "length [''select * from t where a = ? and b = '', ''''] = length [1::int] + 1
   \<and> sqlite_parseTemplate [''select * from t where a = ? and b = '', ''''] [1::int] =
        \<lparr>sql = Some ''select * from t where a = ? and b = ?'', vals = [1]\<rparr>
   \<and> count_list
         (ToString (sql (sqlite_parseTemplate [''select * from t where a = ? and b = '', '''']
                           [1::int])))
         CHR ''?'' = 2
   \<and> count_list
         (ToString (sql (sqlite_parseTemplate [''select * from t where a = ? and b = '', '''']
                           [1::int])))
         CHR ''?'' \<noteq> length [1::int]
   \<and> length [''select * from t where a = $1 and b = '', ''''] = length [1::int] + 1
   \<and> pg_parseTemplate [''select * from t where a = $1 and b = '', ''''] [1::int] =
        \<lparr>sql = Some ''select * from t where a = $1 and b = $1'', vals = [1]\<rparr>
   \<and> count_list
         (ToString (sql (pg_parseTemplate [''select * from t where a = $1 and b = '', '''']
                           [1::int])))
         CHR ''$'' \<noteq> length [1::int]"
proof -
  have sq: "sqlite_parseTemplate [''select * from t where a = ? and b = '', ''''] [1::int] =
        \<lparr>sql = Some ''select * from t where a = ? and b = ?'', vals = [1]\<rparr>"
    unfolding sqlite_parseTemplate_def by (subst parseTemplate_loop_closed) simp_all
  have pg: "pg_parseTemplate [''select * from t where a = $1 and b = '', ''''] [1::int] =
        \<lparr>sql = Some ''select * from t where a = $1 and b = $1'', vals = [1]\<rparr>"
    unfolding pg_parseTemplate_def
    by (subst parseTemplate_loop_closed) (simp_all add: number_to_string.simps digit_def)
  show ?thesis
    by (simp add: sq pg)
qed

section \<open>The statement builders\<close>

lemma map_from_upt:
  "map_from k f xs = map (\<lambda>i. f (xs ! (i - k)) i) [k..<k + length xs]"
proof (induction xs arbitrary: k)
  case Nil
  show ?case by simp
next
  case (Cons x xs)
  have tail: "map (\<lambda>i. f ((x # xs) ! (i - k)) i) [Suc k..<Suc k + length xs] =
              map (\<lambda>i. f (xs ! (i - Suc k)) i) [Suc k..<Suc k + length xs]"
  proof (rule map_cong [OF refl])
    fix i assume "i \<in> set [Suc k..<Suc k + length xs]"
    then have "Suc k \<le> i" by (simp only: set_upt atLeastLessThan_iff)
    then have "i - k = Suc (i - Suc k)" by arith
    then show "f ((x # xs) ! (i - k)) i = f (xs ! (i - Suc k)) i" by simp
  qed
  have "k < Suc k + length xs" by simp
  then have "[k..<Suc k + length xs] = k # [Suc k..<Suc k + length xs]"
    by (rule upt_conv_Cons)
  moreover have "k + length (x # xs) = Suc k + length xs" by simp
  ultimately have "[k..<k + length (x # xs)] = k # [Suc k..<Suc k + length xs]"
    by (simp only:)
  then have "map (\<lambda>i. f ((x # xs) ! (i - k)) i) [k..<k + length (x # xs)] =
        f x k # map (\<lambda>i. f ((x # xs) ! (i - k)) i) [Suc k..<Suc k + length xs]"
    by simp
  also have "\<dots> = f x k # map_from (Suc k) f xs"
    by (simp only: tail Cons.IH)
  finally show ?case by simp
qed

lemma map_index_upt: "map_index f xs = map (\<lambda>i. f (xs ! i) i) [0..<length xs]"
  by (simp add: map_index_def map_from_upt)

lemma map_from_ignore: "map_from k (\<lambda>x i. g x) xs = map g xs"
  by (induction xs arbitrary: k) simp_all

lemma map_index_ignore: "map_index (\<lambda>x i. g x) xs = map g xs"
  by (simp add: map_index_def map_from_ignore)

lemma map_const_replicate: "map (\<lambda>_. c) xs = replicate (length xs) c"
  by (induction xs) simp_all

lemma zip_keys_values: "zip (Object_keys obj) (Object_values obj) = obj"
  by (simp add: Object_keys_def Object_values_def zip_map_fst_snd)

text \<open>
  C4. For a single object, \<open>insert\<close> lists the columns in the enumeration order of the
  object's keys, gives one placeholder per key, and binds the object's values in the same
  order, in both dialects: key \<open>i\<close> of the column list belongs to bound value \<open>i\<close>, and
  pairing the keys with the bound values position by position gives the object back.
\<close>

theorem insert_single_aligned:
  "issued (pg_insert client table (Single data)) =
     [\<lparr>sql = Some (''INSERT INTO '' @ table @ '' ('' @ join '', '' (Object_keys data) @
                   '') VALUES ('' @
                   join '', '' (map (\<lambda>i. ''$'' @ number_to_string (i + 1))
                                  [0..<length (Object_keys data)]) @ '')''),
       vals = Object_values data\<rparr>]
   \<and> issued (sqlite_insert sclient table (Single data)) =
     [\<lparr>sql = Some (''INSERT INTO '' @ table @ '' ('' @ join '', '' (Object_keys data) @
                   '') VALUES ('' @
                   join '', '' (replicate (length (Object_keys data)) ''?'') @ '')''),
       vals = Object_values data\<rparr>]
   \<and> zip (Object_keys data) (Object_values data) = data
   \<and> length (Object_values data) = length (Object_keys data)"
  by (simp add: pg_insert_def sqlite_insert_def Let_def map_index_upt map_const_replicate
        zip_map_fst_snd Object_keys_def Object_values_def)

text \<open>
  C3. \<open>update\<close> lists the keys of \<open>data\<close> in enumeration order in the SET clause and
  joins the keys of \<open>where\<close> with AND in the WHERE clause. In the numbered dialect the data
  placeholders are \<open>$1\<close> to \<open>$n\<close> and key \<open>i\<close> of \<open>where\<close> receives the number
  \<open>i + 1 + n\<close>, for \<open>n\<close> the number of data values. The bound values are the values of
  \<open>data\<close> followed by the values of \<open>where\<close>.
\<close>

theorem update_values_order:
  "issued (pg_update client table wher data) =
     [\<lparr>sql = Some (''UPDATE '' @ table @ '' SET '' @
                   join '', '' (map (\<lambda>i. Object_keys data ! i @ '' = $'' @ number_to_string (i + 1))
                                  [0..<length (Object_keys data)]) @
                   '' WHERE '' @
                   join '' AND ''
                     (map (\<lambda>i. Object_keys wher ! i @ '' = $'' @
                                number_to_string (i + 1 + length (Object_values data)))
                        [0..<length (Object_keys wher)])),
       vals = Object_values data @ Object_values wher\<rparr>]
   \<and> issued (sqlite_update sclient table wher data) =
     [\<lparr>sql = Some (''UPDATE '' @ table @ '' SET '' @
                   join '', '' (map (\<lambda>key. key @ '' = ?'') (Object_keys data)) @
                   '' WHERE '' @
                   join '' AND '' (map (\<lambda>key. key @ '' = ?'') (Object_keys wher))),
       vals = Object_values data @ Object_values wher\<rparr>]"
  by (simp add: pg_update_def sqlite_update_def Let_def map_index_ignore map_index_upt)


lemma foldl_append_values:
  "foldl (\<lambda>acc row. acc @ Object_values row) acc rws = acc @ concat (map Object_values rws)"
  by (induction rws arbitrary: acc) simp_all

lemma length_concat_uniform:
  "\<forall>xs\<in>set xss. length xs = k \<Longrightarrow> length (concat xss) = length xss * k"
  by (induction xss) simp_all

lemma nth_concat_uniform:
  "\<forall>xs\<in>set xss. length xs = k \<Longrightarrow> i < length xss \<Longrightarrow> j < k \<Longrightarrow>
     concat xss ! (i * k + j) = xss ! i ! j"
proof (induction xss arbitrary: i)
  case Nil
  then show ?case by simp
next
  case (Cons xs xss)
  then have len: "length xs = k" by simp
  show ?case
  proof (cases i)
    case 0
    with Cons.prems len show ?thesis by (simp add: nth_append)
  next
    case (Suc i')
    with Cons.prems have "concat xss ! (i' * k + j) = xss ! i' ! j"
      by (intro Cons.IH) simp_all
    with Suc len show ?thesis by (simp add: nth_append)
  qed
qed

lemma group_numbers: "map (\<lambda>j. i * k + j + 1) [0..<k] = [i * k + 1..<i * k + 1 + k]"
proof -
  have "map (\<lambda>j. j + (i * k + 1)) [0..<k] = [i * k + 1..<k + (i * k + 1)]"
    by (rule map_add_upt)
  then show ?thesis by (simp add: add.commute add.left_commute)
qed

lemma statement_numbers:
  "concat (map (\<lambda>i. map (\<lambda>j. i * k + j + 1) [0..<k]) [0..<n]) = [1..<n * k + 1]"
proof (induction n)
  case 0
  show ?case by simp
next
  case (Suc n)
  have split: "[1..<n * k + 1 + k] = [1..<n * k + 1] @ [n * k + 1..<n * k + 1 + k]"
    by (rule upt_add_eq_append) simp
  have "concat (map (\<lambda>i. map (\<lambda>j. i * k + j + 1) [0..<k]) [0..<Suc n]) =
        concat (map (\<lambda>i. map (\<lambda>j. i * k + j + 1) [0..<k]) [0..<n]) @
        map (\<lambda>j. n * k + j + 1) [0..<k]"
    by simp
  also have "\<dots> = [1..<n * k + 1] @ [n * k + 1..<n * k + 1 + k]"
    by (simp only: Suc.IH group_numbers [of n k])
  also have "\<dots> = [1..<n * k + 1 + k]"
    by (simp only: split)
  also have "n * k + 1 + k = Suc n * k + 1"
    by simp
  finally show ?case .
qed

text \<open>
  C2. For a non-empty array of rows that share the keys of the first row in one order,
  \<open>insert\<close> lists the keys of the first row as columns and builds one placeholder group
  per row with one placeholder per key; the bound values are the rows' values, row after
  row and in key order within a row. In the numbered dialect row \<open>i\<close>, column \<open>j\<close>
  receives the number \<open>i * k + j + 1\<close> for \<open>k\<close> keys, which is the position of that row's
  value for that column among the bound values, and the numbers in statement order are
  \<open>1\<close> to \<open>rows * k\<close>, each once and increasing; the positional dialect writes \<open>?\<close> in
  every slot.
\<close>

theorem insert_rows_numbered:
  assumes nonempty: "rws \<noteq> []"
    and shared: "\<forall>r\<in>set rws. Object_keys r = Object_keys (hd rws)"
  shows "issued (pg_insert client table (Many rws)) =
     [\<lparr>sql = Some (''INSERT INTO '' @ table @ '' ('' @ join '', '' (Object_keys (hd rws)) @
                   '') VALUES '' @
                   join '', ''
                     (map (\<lambda>i. ''('' @
                             join '', ''
                               (map (\<lambda>j. ''$'' @
                                       number_to_string
                                         (i * length (Object_keys (hd rws)) + j + 1))
                                  [0..<length (Object_keys (hd rws))]) @
                             '')'')
                        [0..<length rws])),
       vals = concat (map Object_values rws)\<rparr>]
   \<and> issued (sqlite_insert sclient table (Many rws)) =
     [\<lparr>sql = Some (''INSERT INTO '' @ table @ '' ('' @ join '', '' (Object_keys (hd rws)) @
                   '') VALUES '' @
                   join '', ''
                     (replicate (length rws)
                        (''('' @
                         join '', '' (replicate (length (Object_keys (hd rws))) ''?'') @
                         '')''))),
       vals = concat (map Object_values rws)\<rparr>]
   \<and> length (concat (map Object_values rws)) = length rws * length (Object_keys (hd rws))
   \<and> (\<forall>i<length rws. \<forall>j<length (Object_keys (hd rws)).
         concat (map Object_values rws) ! (i * length (Object_keys (hd rws)) + j) =
           Object_values (rws ! i) ! j)
   \<and> concat (map (\<lambda>i. map (\<lambda>j. i * length (Object_keys (hd rws)) + j + 1)
                             [0..<length (Object_keys (hd rws))])
               [0..<length rws]) =
       [1..<length rws * length (Object_keys (hd rws)) + 1]"
proof -
  obtain r rs where rws: "rws = r # rs"
    using nonempty by (cases rws) auto
  have first: "js_index rws 0 = Some (hd rws)"
    by (simp add: rws js_index_def)
  have pg: "issued (pg_insert client table (Many rws)) =
     [\<lparr>sql = Some (''INSERT INTO '' @ table @ '' ('' @ join '', '' (Object_keys (hd rws)) @
                   '') VALUES '' @
                   join '', ''
                     (map (\<lambda>i. ''('' @
                             join '', ''
                               (map (\<lambda>j. ''$'' @
                                       number_to_string
                                         (i * length (Object_keys (hd rws)) + j + 1))
                                  [0..<length (Object_keys (hd rws))]) @
                             '')'')
                        [0..<length rws])),
       vals = concat (map Object_values rws)\<rparr>]"
    by (simp add: pg_insert_def first Let_def map_index_upt foldl_append_values)
  have sq: "issued (sqlite_insert sclient table (Many rws)) =
     [\<lparr>sql = Some (''INSERT INTO '' @ table @ '' ('' @ join '', '' (Object_keys (hd rws)) @
                   '') VALUES '' @
                   join '', ''
                     (replicate (length rws)
                        (''('' @
                         join '', '' (replicate (length (Object_keys (hd rws))) ''?'') @
                         '')''))),
       vals = concat (map Object_values rws)\<rparr>]"
    by (simp add: sqlite_insert_def first Let_def map_const_replicate foldl_append_values)
  have uniform: "\<forall>xs\<in>set (map Object_values rws). length xs = length (Object_keys (hd rws))"
  proof
    fix xs assume "xs \<in> set (map Object_values rws)"
    then obtain r' where "r' \<in> set rws" and "xs = Object_values r'" by auto
    moreover from this shared have "Object_keys r' = Object_keys (hd rws)" by blast
    moreover have "length (Object_values r') = length (Object_keys r')"
      by (simp add: Object_keys_def Object_values_def)
    ultimately show "length xs = length (Object_keys (hd rws))" by simp
  qed
  have len: "length (concat (map Object_values rws)) =
             length rws * length (Object_keys (hd rws))"
    using length_concat_uniform [OF uniform] by simp
  have nth: "\<forall>i<length rws. \<forall>j<length (Object_keys (hd rws)).
         concat (map Object_values rws) ! (i * length (Object_keys (hd rws)) + j) =
           Object_values (rws ! i) ! j"
  proof (intro allI impI)
    fix i j assume i: "i < length rws" and j: "j < length (Object_keys (hd rws))"
    from i have "i < length (map Object_values rws)" by simp
    from nth_concat_uniform [OF uniform this j] i show
      "concat (map Object_values rws) ! (i * length (Object_keys (hd rws)) + j) =
           Object_values (rws ! i) ! j" by simp
  qed
  from pg sq len nth statement_numbers show ?thesis by blast
qed

theorem insert_rows_numbered_witness:
  "[[(''title'', ''hello''), (''body'', ''world'')], [(''title'', ''hi''), (''body'', ''universe'')]] \<noteq> []
   \<and> Object_keys [(''title'', ''hi''), (''body'', ''universe'')] =
       Object_keys (hd [[(''title'', ''hello''), (''body'', ''world'')],
                        [(''title'', ''hi''), (''body'', ''universe'')]])
   \<and> issued (pg_insert (pg_fixed \<lparr>rows = [], rowCount = 2\<rparr>) ''contents''
         (Many [[(''title'', ''hello''), (''body'', ''world'')],
                [(''title'', ''hi''), (''body'', ''universe'')]])) =
       [\<lparr>sql = Some ''INSERT INTO contents (title, body) VALUES ($1, $2), ($3, $4)'',
         vals = [''hello'', ''world'', ''hi'', ''universe'']\<rparr>]
   \<and> issued (sqlite_insert (sqlite_fixed \<lparr>result_rows = [], changes = 2\<rparr>) ''contents''
         (Many [[(''title'', ''hello''), (''body'', ''world'')],
                [(''title'', ''hi''), (''body'', ''universe'')]])) =
       [\<lparr>sql = Some ''INSERT INTO contents (title, body) VALUES (?, ?), (?, ?)'',
         vals = [''hello'', ''world'', ''hi'', ''universe'']\<rparr>]"
proof -
  let ?rws = "[[(''title'', ''hello''), (''body'', ''world'')],
               [(''title'', ''hi''), (''body'', ''universe'')]]"
  have nonempty: "?rws \<noteq> []" by simp
  have shared: "\<forall>r\<in>set ?rws. Object_keys r = Object_keys (hd ?rws)"
    by (simp add: Object_keys_def)
  note inst = insert_rows_numbered [OF nonempty shared,
      of "pg_fixed \<lparr>rows = [], rowCount = 2\<rparr>" "''contents''"
         "sqlite_fixed \<lparr>result_rows = [], changes = 2\<rparr>"]
  from inst have pg: "issued (pg_insert (pg_fixed \<lparr>rows = [], rowCount = 2\<rparr>) ''contents'' (Many ?rws)) =
       [\<lparr>sql = Some ''INSERT INTO contents (title, body) VALUES ($1, $2), ($3, $4)'',
         vals = [''hello'', ''world'', ''hi'', ''universe'']\<rparr>]"
    by (simp add: Object_keys_def Object_values_def number_to_string.simps digit_def)
  from inst have sq: "issued (sqlite_insert (sqlite_fixed \<lparr>result_rows = [], changes = 2\<rparr>) ''contents'' (Many ?rws)) =
       [\<lparr>sql = Some ''INSERT INTO contents (title, body) VALUES (?, ?), (?, ?)'',
         vals = [''hello'', ''world'', ''hi'', ''universe'']\<rparr>]"
    by (simp add: Object_keys_def Object_values_def)
  from pg sq show ?thesis by (simp add: Object_keys_def)
qed


text \<open>
  C10. With a \<open>where\<close> object that has no keys, \<open>get\<close> and \<open>list\<close> still build and hand
  to the driver a statement: its text is \<open>SELECT * FROM <table> WHERE \<close> (in lower case in
  the embedded dialect) with nothing after WHERE, and no value is bound. Nothing rejects
  or treats apart the empty object: the operation's outcome is what the driver makes of
  that statement.
\<close>

theorem select_empty_where:
  "issued (pg_get client table []) =
     [\<lparr>sql = Some (''SELECT * FROM '' @ table @ '' WHERE ''), vals = []\<rparr>]
   \<and> outcome (pg_get client table []) =
       (case client (Some (''SELECT * FROM '' @ table @ '' WHERE '')) [] of
          Inl e \<Rightarrow> Inl e
        | Inr result \<Rightarrow> Inr (QueryResultV result))
   \<and> issued (pg_list client table []) =
     [\<lparr>sql = Some (''SELECT * FROM '' @ table @ '' WHERE ''), vals = []\<rparr>]
   \<and> outcome (pg_list client table []) =
       (case client (Some (''SELECT * FROM '' @ table @ '' WHERE '')) [] of
          Inl e \<Rightarrow> Inl e
        | Inr result \<Rightarrow> Inr (QueryResultV result))
   \<and> issued (sqlite_get sclient table []) =
     [\<lparr>sql = Some (''select * from '' @ table @ '' where ''), vals = []\<rparr>]
   \<and> outcome (sqlite_get sclient table []) =
       (case sclient (Some (''select * from '' @ table @ '' where '')) [] of
          Inl e \<Rightarrow> Inl e
        | Inr result \<Rightarrow> Inr (Statement_get result))
   \<and> issued (sqlite_list sclient table []) =
     [\<lparr>sql = Some (''select * from '' @ table @ '' where ''), vals = []\<rparr>]
   \<and> outcome (sqlite_list sclient table []) =
       (case sclient (Some (''select * from '' @ table @ '' where '')) [] of
          Inl e \<Rightarrow> Inl e
        | Inr result \<Rightarrow> Inr (Statement_all result))"
  by (simp add: pg_get_def pg_list_def sqlite_get_def sqlite_list_def Let_def
        Object_keys_def Object_values_def map_index_def)

text \<open>
  C9. The statement \<open>get\<close> builds, and the one \<open>list\<close> builds, is determined by the
  table and the \<open>where\<close> object alone: two calls with the same table and equal \<open>where\<close>
  objects (same keys, same values, same order) hand the driver the same text and the same
  bound values in the same order, whatever the client and what it answers, in both
  dialects.
\<close>

theorem select_statement_deterministic:
  "issued (pg_get client1 table wher) = issued (pg_get client2 table wher)
   \<and> issued (pg_list client1 table wher) = issued (pg_list client2 table wher)
   \<and> issued (sqlite_get sclient1 table wher) = issued (sqlite_get sclient2 table wher)
   \<and> issued (sqlite_list sclient1 table wher) = issued (sqlite_list sclient2 table wher)"
  by (simp add: pg_get_def pg_list_def sqlite_get_def sqlite_list_def Let_def)

section \<open>Result shaping\<close>

text \<open>
  C5. The claim is that \<open>get\<close> returns at most one row, the first match or absence, and
  \<open>list\<close> the sequence of rows, in both dialects. On a table where two rows match, the
  embedded dialect does so, while in postgres.js both \<open>get\<close> and \<open>list\<close> resolve to the
  driver's whole query result, with both rows and the row count in it.
\<close>

theorem pg_get_returns_query_result:
  "outcome (pg_get (pg_fixed \<lparr>rows = [[(''title'', ''hello''), (''body'', ''world'')],
                                       [(''title'', ''hello''), (''body'', ''again'')]],
                               rowCount = 2\<rparr>)
              ''contents'' [(''title'', ''hello'')]) =
     Inr (QueryResultV \<lparr>rows = [[(''title'', ''hello''), (''body'', ''world'')],
                                [(''title'', ''hello''), (''body'', ''again'')]],
                        rowCount = 2\<rparr>)
   \<and> outcome (pg_list (pg_fixed \<lparr>rows = [[(''title'', ''hello''), (''body'', ''world'')],
                                         [(''title'', ''hello''), (''body'', ''again'')]],
                                 rowCount = 2\<rparr>)
                ''contents'' [(''title'', ''hello'')]) =
     Inr (QueryResultV \<lparr>rows = [[(''title'', ''hello''), (''body'', ''world'')],
                                [(''title'', ''hello''), (''body'', ''again'')]],
                        rowCount = 2\<rparr>)
   \<and> outcome (sqlite_get (sqlite_fixed \<lparr>result_rows = [[(''title'', ''hello''), (''body'', ''world'')],
                                                      [(''title'', ''hello''), (''body'', ''again'')]],
                                       changes = 0\<rparr>)
                ''contents'' [(''title'', ''hello'')]) =
     Inr (RowV [(''title'', ''hello''), (''body'', ''world'')])
   \<and> outcome (sqlite_list (sqlite_fixed \<lparr>result_rows = [[(''title'', ''hello''), (''body'', ''world'')],
                                                       [(''title'', ''hello''), (''body'', ''again'')]],
                                        changes = 0\<rparr>)
                ''contents'' [(''title'', ''hello'')]) =
     Inr (RowSetV [[(''title'', ''hello''), (''body'', ''world'')],
                   [(''title'', ''hello''), (''body'', ''again'')]])"
  by (simp add: pg_get_def pg_list_def sqlite_get_def sqlite_list_def Let_def pg_fixed_def
        sqlite_fixed_def Statement_get_def Statement_all_def)

text \<open>
  C6. The claim is that \<open>pluck\<close> returns the first column of the first row, and absence
  when the query yields no row, in both dialects. The embedded dialect does so. In
  postgres.js \<open>pluck\<close> fails with a TypeError when the query yields no row, and on a row
  keyed by column name it reads the property \<open>0\<close>, which such a row does not have.
\<close>

theorem pg_pluck_fails_without_rows:
  "outcome (pg_pluck (pg_fixed \<lparr>rows = [], rowCount = 0\<rparr>)
              [''select id from posts where author = '', ''''] [''bill'']) =
     Inl TypeError
   \<and> outcome (pg_pluck (pg_fixed \<lparr>rows = [[(''id'', ''7'')]], rowCount = 1\<rparr>)
              [''select id from posts where author = '', ''''] [''bill'']) =
     Inr Undefined
   \<and> outcome (sqlite_pluck (sqlite_fixed \<lparr>result_rows = [], changes = 0\<rparr>)
              [''select id from posts where author = '', ''''] [''bill'']) =
     Inr Undefined
   \<and> outcome (sqlite_pluck (sqlite_fixed \<lparr>result_rows = [[(''id'', ''7'')]], changes = 0\<rparr>)
              [''select id from posts where author = '', ''''] [''bill'']) =
     Inr (Scalar ''7'')"
  by (simp add: pg_pluck_def sqlite_pluck_def Let_def pg_fixed_def sqlite_fixed_def
        js_index_def Statement_pluck_get_def)

section \<open>The table accessor\<close>

lemma table_insert_overflows:
  "table_insert depth table data = \<lparr>issued = [], outcome = Inl RangeError\<rparr>"
  by (induction depth arbitrary: data) simp_all

lemma table_get_overflows:
  "table_get depth table data = \<lparr>issued = [], outcome = Inl RangeError\<rparr>"
  by (induction depth arbitrary: data) simp_all

lemma table_list_overflows:
  "table_list depth table data = \<lparr>issued = [], outcome = Inl RangeError\<rparr>"
  by (induction depth arbitrary: data) simp_all

text \<open>
  C8. The claim is that the members of \<open>table(name)\<close> behave as \<open>insert\<close>, \<open>get\<close> and
  \<open>list\<close> applied to \<open>name\<close>. In both dialects each member calls itself until the stack is
  exhausted: whatever the stack depth and the argument, it ends in a RangeError and hands
  no statement to the driver, whereas the operations themselves always hand one over.
\<close>

theorem table_never_reaches_operations:
  "tbl_insert (pg_table client name) depth arg = \<lparr>issued = [], outcome = Inl RangeError\<rparr>
   \<and> tbl_get (pg_table client name) depth arg = \<lparr>issued = [], outcome = Inl RangeError\<rparr>
   \<and> tbl_list (pg_table client name) depth arg = \<lparr>issued = [], outcome = Inl RangeError\<rparr>
   \<and> tbl_insert (sqlite_table sclient name) depth arg = \<lparr>issued = [], outcome = Inl RangeError\<rparr>
   \<and> tbl_get (sqlite_table sclient name) depth arg = \<lparr>issued = [], outcome = Inl RangeError\<rparr>
   \<and> tbl_list (sqlite_table sclient name) depth arg = \<lparr>issued = [], outcome = Inl RangeError\<rparr>
   \<and> issued (pg_insert client name (Single data)) \<noteq> []
   \<and> issued (pg_get client name wher) \<noteq> []
   \<and> issued (pg_list client name wher) \<noteq> []
   \<and> issued (sqlite_insert sclient name (Single data)) \<noteq> []
   \<and> issued (sqlite_get sclient name wher) \<noteq> []
   \<and> issued (sqlite_list sclient name wher) \<noteq> []"
  by (simp add: pg_table_def sqlite_table_def table_insert_overflows table_get_overflows
        table_list_overflows pg_insert_def pg_get_def pg_list_def sqlite_insert_def
        sqlite_get_def sqlite_list_def Let_def)

section \<open>Shape of the rows given to insert\<close>

text \<open>
  C7. The claim asks that \<open>insert\<close> refuse an empty array, and an array whose rows have
  differing key sets, before any statement is built. The code refuses the first only:
  with an empty array it fails with a TypeError before anything is built and hands nothing
  to the driver, in both dialects. A non-empty array is never refused for the shape of its
  rows: whatever keys the later rows have, the statement lists the keys of the first row,
  has one group of that many placeholders per row and binds all the rows' values one after
  the other, and it is handed to the driver, whose answer decides the outcome.
\<close>

theorem insert_shape_handling:
  "pg_insert client table (Many []) = \<lparr>issued = [], outcome = Inl TypeError\<rparr>
   \<and> sqlite_insert sclient table (Many []) = \<lparr>issued = [], outcome = Inl TypeError\<rparr>
   \<and> issued (pg_insert client table (Many (r # rs))) =
     [\<lparr>sql = Some (''INSERT INTO '' @ table @ '' ('' @ join '', '' (Object_keys r) @
                   '') VALUES '' @
                   join '', ''
                     (map (\<lambda>i. ''('' @
                             join '', ''
                               (map (\<lambda>j. ''$'' @
                                       number_to_string (i * length (Object_keys r) + j + 1))
                                  [0..<length (Object_keys r)]) @
                             '')'')
                        [0..<length (r # rs)])),
       vals = concat (map Object_values (r # rs))\<rparr>]
   \<and> outcome (pg_insert client table (Many (r # rs))) =
       (case client (sql (hd (issued (pg_insert client table (Many (r # rs))))))
                    (vals (hd (issued (pg_insert client table (Many (r # rs)))))) of
          Inl e \<Rightarrow> Inl e
        | Inr result \<Rightarrow> Inr (OperationResult ''insert'' (rowCount result)))
   \<and> issued (sqlite_insert sclient table (Many (r # rs))) =
     [\<lparr>sql = Some (''INSERT INTO '' @ table @ '' ('' @ join '', '' (Object_keys r) @
                   '') VALUES '' @
                   join '', ''
                     (replicate (length (r # rs))
                        (''('' @ join '', '' (replicate (length (Object_keys r)) ''?'') @ '')''))),
       vals = concat (map Object_values (r # rs))\<rparr>]
   \<and> outcome (sqlite_insert sclient table (Many (r # rs))) =
       (case sclient (sql (hd (issued (sqlite_insert sclient table (Many (r # rs))))))
                     (vals (hd (issued (sqlite_insert sclient table (Many (r # rs)))))) of
          Inl e \<Rightarrow> Inl e
        | Inr result \<Rightarrow> Inr (OperationResult ''insert'' (changes result)))"
proof -
  have none: "js_index ([] :: 'a row list) 0 = None"
    by (simp add: js_index_def)
  have first: "js_index (r # rs) 0 = Some r"
    by (simp add: js_index_def)
  have e1: "pg_insert client table (Many []) = \<lparr>issued = [], outcome = Inl TypeError\<rparr>"
    by (simp add: pg_insert_def none)
  have e2: "sqlite_insert sclient table (Many []) = \<lparr>issued = [], outcome = Inl TypeError\<rparr>"
    by (simp add: sqlite_insert_def none)
  have p1: "issued (pg_insert client table (Many (r # rs))) =
     [\<lparr>sql = Some (''INSERT INTO '' @ table @ '' ('' @ join '', '' (Object_keys r) @
                   '') VALUES '' @
                   join '', ''
                     (map (\<lambda>i. ''('' @
                             join '', ''
                               (map (\<lambda>j. ''$'' @
                                       number_to_string (i * length (Object_keys r) + j + 1))
                                  [0..<length (Object_keys r)]) @
                             '')'')
                        [0..<length (r # rs)])),
       vals = concat (map Object_values (r # rs))\<rparr>]"
    by (simp only: pg_insert_def first Let_def map_index_upt foldl_append_values
          insert_data.case option.case effect.simps append_Nil)
  have p2: "outcome (pg_insert client table (Many (r # rs))) =
       (case client (sql (hd (issued (pg_insert client table (Many (r # rs))))))
                    (vals (hd (issued (pg_insert client table (Many (r # rs)))))) of
          Inl e \<Rightarrow> Inl e
        | Inr result \<Rightarrow> Inr (OperationResult ''insert'' (rowCount result)))"
    by (simp add: pg_insert_def first Let_def)
  have s1: "issued (sqlite_insert sclient table (Many (r # rs))) =
     [\<lparr>sql = Some (''INSERT INTO '' @ table @ '' ('' @ join '', '' (Object_keys r) @
                   '') VALUES '' @
                   join '', ''
                     (replicate (length (r # rs))
                        (''('' @ join '', '' (replicate (length (Object_keys r)) ''?'') @ '')''))),
       vals = concat (map Object_values (r # rs))\<rparr>]"
    by (simp only: sqlite_insert_def first Let_def map_const_replicate foldl_append_values
          insert_data.case option.case effect.simps append_Nil)
  have s2: "outcome (sqlite_insert sclient table (Many (r # rs))) =
       (case sclient (sql (hd (issued (sqlite_insert sclient table (Many (r # rs))))))
                     (vals (hd (issued (sqlite_insert sclient table (Many (r # rs)))))) of
          Inl e \<Rightarrow> Inl e
        | Inr result \<Rightarrow> Inr (OperationResult ''insert'' (changes result)))"
    by (simp add: sqlite_insert_def first Let_def)
  from e1 e2 p1 p2 s1 s2 show ?thesis by blast
qed

text \<open>
  C7 as stated, that rows with differing key sets are refused and no query is issued, fails
  on two rows of which the second lacks a key: a statement with four placeholders and
  three bound values goes to the driver.
\<close>

theorem insert_mismatched_rows_issued:
  "issued (pg_insert (pg_fixed \<lparr>rows = [], rowCount = 2\<rparr>) ''contents''
            (Many [[(''title'', ''hello''), (''body'', ''world'')], [(''title'', ''hi'')]])) =
     [\<lparr>sql = Some ''INSERT INTO contents (title, body) VALUES ($1, $2), ($3, $4)'',
       vals = [''hello'', ''world'', ''hi'']\<rparr>]
   \<and> outcome (pg_insert (pg_fixed \<lparr>rows = [], rowCount = 2\<rparr>) ''contents''
            (Many [[(''title'', ''hello''), (''body'', ''world'')], [(''title'', ''hi'')]])) =
     Inr (OperationResult ''insert'' 2)"
  by (simp add: pg_insert_def pg_fixed_def js_index_def Let_def map_index_def
        Object_keys_def Object_values_def number_to_string.simps digit_def)


end
